theory Spec2Isabelle
  imports Main "HOL-Library.Word"
begin

section \<open>JavaScript values handled by the dispatcher\<close>

text \<open>
  The values a handler can return (\<open>Json | Buffer | undefined | any\<close> in \<open>index.ts\<close>).
  Strings are held as their UTF-8 bytes, so that \<open>Buffer.byteLength\<close> of a string is the
  length of the list. A stream is known by an identity only: the dispatcher never looks
  inside it.

  A number is a double. The dispatcher does no arithmetic on the numbers of a body, it only
  prints them, so a finite number is known by the text that \<open>Number.prototype.toString\<close>
  gives it (\<open>1234\<close>, \<open>0.5\<close>, \<open>1e+21\<close>; both zeros print as \<open>0\<close>), and the three
  numbers that are not finite are values of their own.
\<close>

datatype number = Finite string | NaN | Infinity | NegInfinity

datatype json =
    JNull
  | JBool bool
  | JNum number
  | JStr string
  | JArr "json list"
  | JObj "(string \<times> json) list"

datatype jsval =
    Undefined
  | Json json
  | Buffer "8 word list"
  | Stream nat

datatype hval = HStr string | HNum nat

type_synonym OutgoingHttpHeaders = "string \<rightharpoonup> hval"

text \<open>\<open>class Response\<close> and \<open>reply\<close>: the defaults of the constructor are the
  values taken when the argument is left out (\<open>None\<close>).\<close>

record Response =
  body :: jsval
  statusCode :: int
  headers :: OutgoingHttpHeaders

definition new_Response :: "jsval \<Rightarrow> int option \<Rightarrow> OutgoingHttpHeaders option \<Rightarrow> Response" where
  "new_Response b sc hs =
     \<lparr>body = b,
      statusCode = (case sc of None \<Rightarrow> 200 | Some c \<Rightarrow> c),
      headers = (case hs of None \<Rightarrow> Map.empty | Some h \<Rightarrow> h)\<rparr>"

definition reply :: "jsval \<Rightarrow> int option \<Rightarrow> OutgoingHttpHeaders option \<Rightarrow> Response" where
  "reply b sc hs = new_Response b sc hs"

text \<open>A thrown value, read through the three properties the dispatcher reads:
  \<open>statusCode\<close>, \<open>status\<close> and \<open>message\<close>. A missing numeric property is \<open>None\<close>.\<close>

record errobj =
  err_statusCode :: "int option"
  err_status :: "int option"
  err_message :: jsval

definition createError :: "int \<Rightarrow> string \<Rightarrow> errobj" where
  "createError sc msg =
     \<lparr>err_statusCode = Some sc, err_status = None, err_message = Json (JStr msg)\<rparr>"

text \<open>\<open>new Error(msg)\<close>: a message and no status.\<close>

definition new_Error :: "string \<Rightarrow> errobj" where
  "new_Error msg = \<lparr>err_statusCode = None, err_status = None, err_message = Json (JStr msg)\<rparr>"

text \<open>Truthiness of a number that may be \<open>undefined\<close>, and \<open>a || b || 500\<close>.\<close>

definition truthy_num :: "int option \<Rightarrow> bool" where
  "truthy_num v = (case v of None \<Rightarrow> False | Some n \<Rightarrow> n \<noteq> 0)"

definition or_num :: "int option \<Rightarrow> int option \<Rightarrow> int option" where
  "or_num a b = (if truthy_num a then a else b)"

section \<open>Built-ins used on the body\<close>

definition lower_char :: "char \<Rightarrow> char" where
  "lower_char c =
     (case map_of (zip ''ABCDEFGHIJKLMNOPQRSTUVWXYZ'' ''abcdefghijklmnopqrstuvwxyz'') c of
        Some d \<Rightarrow> d
      | None \<Rightarrow> c)"

definition toLowerCase :: "string \<Rightarrow> string" where
  "toLowerCase s = map lower_char s"

definition Number_toString :: "number \<Rightarrow> string" where
  "Number_toString n =
     (case n of
        Finite t \<Rightarrow> t
      | NaN \<Rightarrow> ''NaN''
      | Infinity \<Rightarrow> ''Infinity''
      | NegInfinity \<Rightarrow> ''-Infinity'')"

definition hex_digit :: "nat \<Rightarrow> char" where
  "hex_digit n = ''0123456789abcdef'' ! (n mod 16)"

text \<open>\<open>JSON.stringify\<close> on the values of type \<open>json\<close>: a finite number prints as
  \<open>toString\<close> prints it, the others as \<open>null\<close>; in a string, the two-character escapes,
  and \<open>\u00XX\<close> for the other control characters.\<close>

definition escape_char :: "char \<Rightarrow> string" where
  "escape_char c =
     (if c = CHR 0x22 then [CHR 0x5C, CHR 0x22]
      else if c = CHR 0x5C then [CHR 0x5C, CHR 0x5C]
      else if c = CHR 0x08 then [CHR 0x5C, CHR ''b'']
      else if c = CHR 0x0C then [CHR 0x5C, CHR ''f'']
      else if c = CHR 0x0A then [CHR 0x5C, CHR ''n'']
      else if c = CHR 0x0D then [CHR 0x5C, CHR ''r'']
      else if c = CHR 0x09 then [CHR 0x5C, CHR ''t'']
      else if (of_char c :: nat) < 32 then
        [CHR 0x5C, CHR ''u'', CHR ''0'', CHR ''0'',
         hex_digit (of_char c div 16), hex_digit (of_char c mod 16)]
      else [c])"

definition quote :: "string \<Rightarrow> string" where
  "quote s = [CHR 0x22] @ concat (map escape_char s) @ [CHR 0x22]"

definition join :: "string \<Rightarrow> string list \<Rightarrow> string" where
  "join sep xs = (case xs of [] \<Rightarrow> [] | y # ys \<Rightarrow> y @ concat (map (\<lambda>z. sep @ z) ys))"

fun JSON_stringify :: "json \<Rightarrow> string" where
  "JSON_stringify JNull = ''null''"
| "JSON_stringify (JBool b) = (if b then ''true'' else ''false'')"
| "JSON_stringify (JNum n) = (case n of Finite t \<Rightarrow> t | _ \<Rightarrow> ''null'')"
| "JSON_stringify (JStr s) = quote s"
| "JSON_stringify (JArr xs) = ''['' @ join '','' (map JSON_stringify xs) @ '']''"
| "JSON_stringify (JObj kvs) =
     ''{'' @ join '','' (map (\<lambda>(k, v). quote k @ '':'' @ JSON_stringify v) kvs) @ ''}''"

text \<open>\<open>String(x)\<close>: an array joins the strings of its elements with commas (\<open>null\<close>
  gives the empty string there), any other object prints as \<open>[object Object]\<close>, a buffer
  prints its bytes.\<close>

fun String_json :: "json \<Rightarrow> string" where
  "String_json JNull = ''null''"
| "String_json (JBool b) = (if b then ''true'' else ''false'')"
| "String_json (JNum n) = Number_toString n"
| "String_json (JStr s) = s"
| "String_json (JArr xs) =
     join '','' (map (\<lambda>x. if x = JNull then [] else String_json x) xs)"
| "String_json (JObj kvs) = ''[object Object]''"

definition String_js :: "jsval \<Rightarrow> string" where
  "String_js v =
     (case v of
        Undefined \<Rightarrow> ''undefined''
      | Json j \<Rightarrow> String_json j
      | Buffer b \<Rightarrow> map (\<lambda>w. char_of (unat w)) b
      | Stream s \<Rightarrow> ''[object Object]'')"

definition byteLength :: "string \<Rightarrow> nat" where
  "byteLength s = length s"

definition typeof :: "jsval \<Rightarrow> string" where
  "typeof v =
     (case v of
        Undefined \<Rightarrow> ''undefined''
      | Json (JBool b) \<Rightarrow> ''boolean''
      | Json (JNum n) \<Rightarrow> ''number''
      | Json (JStr s) \<Rightarrow> ''string''
      | _ \<Rightarrow> ''object'')"

text \<open>The values that count as false in a condition: \<open>undefined\<close>, \<open>null\<close>, \<open>false\<close>,
  zero, \<open>NaN\<close> and the empty string.\<close>

definition falsy :: "jsval \<Rightarrow> bool" where
  "falsy v =
     (case v of
        Undefined \<Rightarrow> True
      | Json JNull \<Rightarrow> True
      | Json (JBool b) \<Rightarrow> \<not> b
      | Json (JNum n) \<Rightarrow> n = Finite ''0'' \<or> n = NaN
      | Json (JStr s) \<Rightarrow> s = []
      | _ \<Rightarrow> False)"

definition isBuffer :: "jsval \<Rightarrow> bool" where
  "isBuffer v = (case v of Buffer b \<Rightarrow> True | _ \<Rightarrow> False)"

text \<open>\<open>obj instanceof Stream || readable(obj)\<close>.\<close>

definition isStreamLike :: "jsval \<Rightarrow> bool" where
  "isStreamLike v = (case v of Stream s \<Rightarrow> True | _ \<Rightarrow> False)"

section \<open>The server response object\<close>

text \<open>
  Node's \<open>ServerResponse\<close> as far as the dispatcher uses it: the status code, the header
  table (Node keys it by the lower-cased name) and what was handed to \<open>end\<close> or \<open>pipe\<close>.
  \<open>Ended None\<close> is a response ended with no payload. Nothing has been written yet from
  a stream that was only piped.

  The calls on the response object can throw. A call gives back how it completed and the
  response object as it is then; what was written before a throw stays written.
\<close>

datatype sent = NotSent | Ended "jsval option" | Piped nat

record ServerResponse =
  res_statusCode :: int
  res_headers :: "string \<rightharpoonup> hval"
  res_sent :: sent

datatype node_error =
    ERR_INVALID_ARG_TYPE jsval
  | ERR_HTTP_HEADERS_SENT
  | ERR_HTTP_INVALID_STATUS_CODE int

datatype completion = Returns | Throws node_error

definition and_then ::
  "completion \<times> ServerResponse \<Rightarrow> (ServerResponse \<Rightarrow> completion \<times> ServerResponse)
     \<Rightarrow> completion \<times> ServerResponse" where
  "and_then x f = (case x of (Returns, r) \<Rightarrow> f r | (Throws e, r) \<Rightarrow> (Throws e, r))"

definition headersSent :: "ServerResponse \<Rightarrow> bool" where
  "headersSent r = (case res_sent r of Ended c \<Rightarrow> True | _ \<Rightarrow> False)"

definition getHeader :: "string \<Rightarrow> ServerResponse \<Rightarrow> hval option" where
  "getHeader name r = res_headers r (toLowerCase name)"

text \<open>\<open>setHeader\<close> throws once the headers have gone out.\<close>

definition setHeader :: "string \<Rightarrow> hval \<Rightarrow> ServerResponse \<Rightarrow> completion \<times> ServerResponse" where
  "setHeader name v r =
     (if headersSent r then (Throws ERR_HTTP_HEADERS_SENT, r)
      else (Returns, r\<lparr>res_headers := (res_headers r)(toLowerCase name \<mapsto> v)\<rparr>))"

text \<open>\<open>!res.getHeader(name)\<close>: the header is missing, the empty string or the number 0.\<close>

definition header_unset :: "string \<Rightarrow> ServerResponse \<Rightarrow> bool" where
  "header_unset name r =
     (case getHeader name r of
        None \<Rightarrow> True
      | Some (HStr s) \<Rightarrow> s = []
      | Some (HNum n) \<Rightarrow> n = 0)"

text \<open>The status line is written with the status code taken as a 32-bit integer
  (\<open>statusCode |= 0\<close>), which must lie from 100 to 999.\<close>

definition valid_status :: "int \<Rightarrow> bool" where
  "valid_status sc = (100 \<le> sint (word_of_int sc :: 32 word) \<and> sint (word_of_int sc :: 32 word) \<le> 999)"

text \<open>
  \<open>res.end(chunk)\<close>. On a response that is already ended nothing happens. A chunk that
  is left out or counts as false gives no payload. Any other chunk must be a string or a
  buffer: \<open>end\<close> throws on \<open>true\<close> and the response stays open. Ending writes the
  status line, and throws on a status code out of range.
\<close>

definition res_end :: "jsval option \<Rightarrow> ServerResponse \<Rightarrow> completion \<times> ServerResponse" where
  "res_end chunk r =
     (if headersSent r then (Returns, r)
      else (let data = (case chunk of
                          None \<Rightarrow> None
                        | Some v \<Rightarrow> if falsy v then None else Some v)
            in case data of
                 Some v \<Rightarrow>
                   if typeof v \<noteq> ''string'' \<and> \<not> isBuffer v
                   then (Throws (ERR_INVALID_ARG_TYPE v), r)
                   else if \<not> valid_status (res_statusCode r)
                   then (Throws (ERR_HTTP_INVALID_STATUS_CODE (res_statusCode r)), r)
                   else (Returns, r\<lparr>res_sent := Ended (Some v)\<rparr>)
               | None \<Rightarrow>
                   if \<not> valid_status (res_statusCode r)
                   then (Throws (ERR_HTTP_INVALID_STATUS_CODE (res_statusCode r)), r)
                   else (Returns, r\<lparr>res_sent := Ended None\<rparr>)))"

definition fresh_res :: ServerResponse where
  "fresh_res = \<lparr>res_statusCode = 200, res_headers = Map.empty, res_sent = NotSent\<rparr>"

section \<open>The dispatcher \<open>base\<close>\<close>

text \<open>
  A handler runs with the request and the response object; it may write to the response,
  and it either returns a value or throws. \<open>rawResponse\<close> is a \<open>Response\<close> or any other
  value. The world the dispatcher acts on is the response object and what was written
  to \<open>console.error\<close>. The dispatcher is an \<open>async\<close> function: when a call on the response
  object throws, outside the \<open>try\<close>, its promise is rejected with that error, which is
  \<open>Throws\<close> here.
\<close>

datatype raw = Val jsval | Resp Response

datatype outcome = Returned raw | Threw errobj

record request =
  req_id :: nat
  req_method :: string
  req_url :: string

type_synonym Handler = "request \<Rightarrow> ServerResponse \<Rightarrow> outcome \<times> ServerResponse"

record world =
  res :: ServerResponse
  console_error :: "errobj list"

text \<open>Lines 69 to 109 of \<open>index.ts\<close>: from the raw response to the wire. Where
  \<open>JSON.stringify\<close> is reached, \<open>obj\<close> is a number, an array or an object: \<open>null\<close>,
  buffers and streams have been dealt with before.\<close>

definition send :: "raw \<Rightarrow> ServerResponse \<Rightarrow> completion \<times> ServerResponse" where
  "send rawResponse r0 =
     (let response = (case rawResponse of Resp rp \<Rightarrow> rp | Val v \<Rightarrow> new_Response v None None);
          r1 = r0\<lparr>res_statusCode := statusCode response\<rparr>;
          obj = body response
      in if obj = Json JNull then res_end None r1
         else if isBuffer obj then
           and_then (if header_unset ''Content-Type'' r1
                     then setHeader ''Content-Type'' (HStr ''application/octet-stream'') r1
                     else (Returns, r1))
             (\<lambda>r2. and_then (setHeader ''Content-Length''
                                (HNum (case obj of Buffer b \<Rightarrow> length b | _ \<Rightarrow> 0)) r2)
                (\<lambda>r3. res_end (Some obj) r3))
         else if isStreamLike obj then
           and_then (if header_unset ''Content-Type'' r1
                     then setHeader ''Content-Type'' (HStr ''application/octet-stream'') r1
                     else (Returns, r1))
             (\<lambda>r2. (Returns, r2\<lparr>res_sent := (case obj of Stream s \<Rightarrow> Piped s | _ \<Rightarrow> NotSent)\<rparr>))
         else
           (let stringified = (typeof obj = ''object'' \<or> typeof obj = ''number'');
                str = (if stringified
                       then Json (JStr (case obj of Json j \<Rightarrow> JSON_stringify j | _ \<Rightarrow> []))
                       else obj)
            in and_then (if stringified \<and> header_unset ''Content-Type'' r1
                         then setHeader ''Content-Type''
                                (HStr ''application/json; charset=utf-8'') r1
                         else (Returns, r1))
                 (\<lambda>r2. and_then (setHeader ''Content-Length''
                                    (HNum (byteLength (String_js str))) r2)
                    (\<lambda>r3. res_end (Some str) r3))))"

definition base :: "Handler \<Rightarrow> request \<Rightarrow> world \<Rightarrow> completion \<times> world" where
  "base handler req w =
     (case handler req (res w) of
        (Returned rawResponse, r) \<Rightarrow>
          if rawResponse = Val Undefined then (Returns, w\<lparr>res := r\<rparr>)
          else (case send rawResponse r of (c, r') \<Rightarrow> (c, w\<lparr>res := r'\<rparr>))
      | (Threw errorObj, r) \<Rightarrow>
          (let sc = or_num (or_num (err_statusCode errorObj) (err_status errorObj)) (Some 500);
               message = (if truthy_num sc then err_message errorObj
                          else Json (JStr ''Internal Server Error''));
               rawResponse = reply message sc None;
               w1 = w\<lparr>res := r, console_error := console_error w @ [errorObj]\<rparr>
           in case send (Resp rawResponse) r of (c, r') \<Rightarrow> (c, w1\<lparr>res := r'\<rparr>)))"


section \<open>Request-scoped getters: \<open>createGetter\<close>\<close>

text \<open>
  A value handed out by a getter is a plain value or a promise, known by its identity.
  Whether a promise has settled is kept apart from the getter, in the table \<open>promises\<close>:
  \<open>None\<close> while it is pending, the rejection (\<open>Inl\<close>) or the result (\<open>Inr\<close>) afterwards.

  \<open>reqWeakMap\<close> is keyed by the identity of the request object. \<open>invocations\<close> records
  every call of the compute function made by the getter, with the request's identity and
  how the call ended; the compute function may read it, which stands for everything
  outside the getter that its result can depend on.
\<close>

datatype 'a val = Plain 'a | Promise nat

record ('e, 'a) getter =
  reqWeakMap :: "nat \<rightharpoonup> 'a val"
  invocations :: "(nat \<times> ('e + 'a val)) list"
  promises :: "nat \<rightharpoonup> ('e + 'a)"

type_synonym ('b, 'e, 'a) computeFn =
  "request \<Rightarrow> 'b \<Rightarrow> (nat \<times> ('e + 'a val)) list \<Rightarrow> 'e + 'a val"

definition createGetter :: "('e, 'a) getter" where
  "createGetter = \<lparr>reqWeakMap = Map.empty, invocations = [], promises = Map.empty\<rparr>"

text \<open>\<open>memo\<close>: a compute function that throws leaves the map as it was.\<close>

definition memo ::
  "('b, 'e, 'a) computeFn \<Rightarrow> request \<Rightarrow> 'b \<Rightarrow> ('e, 'a) getter
     \<Rightarrow> ('e + 'a val) \<times> ('e, 'a) getter" where
  "memo handler req args g =
     (case reqWeakMap g (req_id req) of
        Some v \<Rightarrow> (Inr v, g)
      | None \<Rightarrow>
          (case handler req args (invocations g) of
             Inl e \<Rightarrow> (Inl e, g\<lparr>invocations := invocations g @ [(req_id req, Inl e)]\<rparr>)
           | Inr result \<Rightarrow>
               (Inr result,
                g\<lparr>invocations := invocations g @ [(req_id req, Inr result)],
                  reqWeakMap := (reqWeakMap g)(req_id req \<mapsto> result)\<rparr>)))"

definition memo_set :: "request \<Rightarrow> 'a val \<Rightarrow> ('e, 'a) getter \<Rightarrow> ('e, 'a) getter" where
  "memo_set req v g = g\<lparr>reqWeakMap := (reqWeakMap g)(req_id req \<mapsto> v)\<rparr>"

text \<open>What can happen to a getter over time: a call, a \<open>set\<close>, or a pending promise
  settling.\<close>

datatype ('b, 'e, 'a) event =
    Call request 'b
  | Set request "'a val"
  | Settle nat "'e + 'a"

definition settle :: "nat \<Rightarrow> 'e + 'a \<Rightarrow> ('e, 'a) getter \<Rightarrow> ('e, 'a) getter" where
  "settle p out g =
     (if promises g p = None then g\<lparr>promises := (promises g)(p \<mapsto> out)\<rparr> else g)"

fun step :: "('b, 'e, 'a) computeFn \<Rightarrow> ('b, 'e, 'a) event \<Rightarrow> ('e, 'a) getter \<Rightarrow> ('e, 'a) getter" where
  "step handler (Call req args) g = snd (memo handler req args g)"
| "step handler (Set req v) g = memo_set req v g"
| "step handler (Settle p out) g = settle p out g"

fun run :: "('b, 'e, 'a) computeFn \<Rightarrow> ('b, 'e, 'a) event list \<Rightarrow> ('e, 'a) getter \<Rightarrow> ('e, 'a) getter" where
  "run handler [] g = g"
| "run handler (e # es) g = run handler es (step handler e g)"

definition sets :: "nat \<Rightarrow> ('b, 'e, 'a) event \<Rightarrow> bool" where
  "sets k e = (case e of Set req v \<Rightarrow> req_id req = k | _ \<Rightarrow> False)"

text \<open>The calls of the compute function for request \<open>k\<close>, and those that returned.\<close>

definition calls_for :: "nat \<Rightarrow> ('e, 'a) getter \<Rightarrow> (nat \<times> ('e + 'a val)) list" where
  "calls_for k g = filter (\<lambda>c. fst c = k) (invocations g)"

definition returned_for :: "nat \<Rightarrow> ('e, 'a) getter \<Rightarrow> (nat \<times> ('e + 'a val)) list" where
  "returned_for k g = filter (\<lambda>c. fst c = k \<and> \<not> isl (snd c)) (invocations g)"

text \<open>Invariant of a getter: the compute function has returned at most once for each
  request, and a request for which it has returned has an entry.\<close>

definition once :: "('e, 'a) getter \<Rightarrow> bool" where
  "once g = (\<forall>k. length (returned_for k g) \<le> 1
               \<and> (returned_for k g \<noteq> [] \<longrightarrow> reqWeakMap g k \<noteq> None))"

text \<open>Two compute functions and two requests to run the getter on: one returns a new
  pending promise at each call, the other throws, as the getter of the test
  \<open>getters are can be set\<close> does.\<close>

definition fresh_promise :: "(unit, string, int) computeFn" where
  "fresh_promise req args hist = Inr (Promise (length hist))"

definition always_throws :: "(unit, string, int) computeFn" where
  "always_throws req args hist = Inl ''Setter did not work''"

definition req7 :: request where
  "req7 = \<lparr>req_id = 7, req_method = ''GET'', req_url = ''/''\<rparr>"

definition req8 :: request where
  "req8 = \<lparr>req_id = 8, req_method = ''GET'', req_url = ''/''\<rparr>"

section \<open>Path matching: \<open>path-match.ts\<close>\<close>

text \<open>
  \<open>pathToRegexp\<close> and \<open>decodeURIComponent\<close> are not code of this repository; the matcher
  is defined for any behaviour of the two. A compiled regular expression is known by its
  \<open>exec\<close>: \<open>None\<close> when the pathname does not match, otherwise the capture groups
  \<open>m[1]\<close>, \<open>m[2]\<close>, ..., each \<open>None\<close> when the group took no part in the match.
  \<open>decodeURIComponent\<close> gives \<open>None\<close> where the built-in throws.
\<close>

record Key =
  name :: string
  repeat :: bool
  delimiter :: string

record options =
  sensitive :: bool
  strict :: bool
  end_opt :: bool

type_synonym regexp = "string \<Rightarrow> string option list option"

record lib =
  pathToRegexp :: "string \<Rightarrow> options \<Rightarrow> Key list \<times> regexp"
  decodeURIComponent :: "string \<Rightarrow> string option"

datatype param = Single string | Multi "string list"

type_synonym params = "string \<rightharpoonup> param"

text \<open>\<open>String.prototype.split\<close> with a separator: the empty separator splits into
  single characters.\<close>

function split_on :: "string \<Rightarrow> string \<Rightarrow> string \<Rightarrow> string list" where
  "split_on d acc [] = [acc]"
| "split_on d acc (c # cs) =
     (if d \<noteq> [] \<and> take (length d) (c # cs) = d
      then acc # split_on d [] (drop (length d) (c # cs))
      else split_on d (acc @ [c]) cs)"
  by pat_completeness auto
termination
  by (relation "measure (\<lambda>(d, acc, s). length s)") auto

definition split :: "string \<Rightarrow> string \<Rightarrow> string list" where
  "split s d = (if d = [] then map (\<lambda>c. [c]) s else split_on d [] s)"

definition decodeParam :: "lib \<Rightarrow> string \<Rightarrow> errobj + string" where
  "decodeParam L param =
     (case decodeURIComponent L param of
        Some s \<Rightarrow> Inr s
      | None \<Rightarrow> Inl (createError 400 (''failed to decode param '' @ [CHR 0x22] @ param @ [CHR 0x22])))"

text \<open>The loop over \<open>keys\<close> (lines 24 to 31). \<open>m[i + 1]\<close> beyond the groups is
  \<open>undefined\<close>; \<open>!param\<close> holds for \<open>undefined\<close> and for the empty string.\<close>

function params_loop ::
  "lib \<Rightarrow> Key list \<Rightarrow> string option list \<Rightarrow> nat \<Rightarrow> params \<Rightarrow> errobj + params" where
  "params_loop L keys m i ps =
     (if i < length keys then
        (let key = keys ! i;
             param = (if i < length m then m ! i else None)
         in case param of
              None \<Rightarrow> params_loop L keys m (i + 1) ps
            | Some p \<Rightarrow>
                if p = [] then params_loop L keys m (i + 1) ps
                else (case decodeParam L p of
                        Inl e \<Rightarrow> Inl e
                      | Inr d \<Rightarrow>
                          params_loop L keys m (i + 1)
                            (ps(name key \<mapsto>
                               (if repeat key then Multi (split d (delimiter key))
                                else Single d)))))
      else Inr ps)"
  by pat_completeness auto
termination
  by (relation "measure (\<lambda>(L, keys, m, i, ps). length keys - i)") auto

declare params_loop.simps [simp del]

text \<open>The matcher returns the parameters, \<open>false\<close> (here \<open>Inr None\<close>) when the pathname
  does not match, or throws.\<close>

type_synonym matcher = "string \<Rightarrow> errobj + params option"

definition PathMatch :: "lib \<Rightarrow> options \<Rightarrow> string \<Rightarrow> matcher" where
  "PathMatch L opts path =
     (let (keys, re) = pathToRegexp L path opts
      in (\<lambda>pathname.
            case re pathname of
              None \<Rightarrow> Inr None
            | Some m \<Rightarrow>
                (case params_loop L keys m 0 Map.empty of
                   Inl e \<Rightarrow> Inl e
                 | Inr ps \<Rightarrow> Inr (Some ps))))"

section \<open>The router: \<open>router.ts\<close>\<close>

definition subAppMatch :: "lib \<Rightarrow> string \<Rightarrow> matcher" where
  "subAppMatch L = PathMatch L \<lparr>sensitive = False, strict = True, end_opt = False\<rparr>"

definition routeMatch :: "lib \<Rightarrow> string \<Rightarrow> matcher" where
  "routeMatch L = PathMatch L \<lparr>sensitive = False, strict = False, end_opt = True\<rparr>"

text \<open>
  A handler given to a router is a plain function or another router (a value carrying
  \<open>setBasePathSymbol\<close>). Both are known by an identity: routers are shared, mutable
  objects, kept in a store from identities to their \<open>basePath\<close> and \<open>routes\<close>.
\<close>

datatype target = Terminal nat | Mountable nat

record Route =
  "method" :: "string option"
  path :: string
  handler :: target
  match :: matcher

record Router =
  basePath :: string
  routes :: "Route list"

type_synonym store = "nat \<Rightarrow> Router"

definition new_Router :: Router where
  "new_Router = \<lparr>basePath = [], routes = []\<rparr>"

definition no_routers :: store where
  "no_routers = (\<lambda>r. new_Router)"

definition addRoute :: "lib \<Rightarrow> nat \<Rightarrow> string \<Rightarrow> string \<Rightarrow> target \<Rightarrow> store \<Rightarrow> store" where
  "addRoute L r meth p h s =
     (let m = routeMatch L (basePath (s r) @ p)
      in s(r := (s r)\<lparr>routes := routes (s r) @ [\<lparr>method = Some meth, path = p, handler = h, match = m\<rparr>]\<rparr>))"

definition get :: "lib \<Rightarrow> nat \<Rightarrow> string \<Rightarrow> target \<Rightarrow> store \<Rightarrow> store" where
  "get L r p h s = addRoute L r ''GET'' p h s"

definition post :: "lib \<Rightarrow> nat \<Rightarrow> string \<Rightarrow> target \<Rightarrow> store \<Rightarrow> store" where
  "post L r p h s = addRoute L r ''POST'' p h s"

definition trimTrailing :: "string \<Rightarrow> string" where
  "trimTrailing str = (if str \<noteq> [] \<and> last str = CHR ''/'' then butlast str else str)"

text \<open>
  \<open>setBasePath\<close> calls itself through the routers it meets, and a router can be mounted
  below itself, so the recursion is bounded by a count of steps: \<open>None\<close> when the count
  runs out. The loop reads \<open>routes\<close> and \<open>basePath\<close> of the router from the store at each
  round, as the closure does.
\<close>

fun setBasePath :: "nat \<Rightarrow> lib \<Rightarrow> nat \<Rightarrow> string \<Rightarrow> store \<Rightarrow> store option"
  and setBasePath_loop :: "nat \<Rightarrow> lib \<Rightarrow> nat \<Rightarrow> nat \<Rightarrow> store \<Rightarrow> store option" where
  "setBasePath 0 L r bp s = None"
| "setBasePath (Suc n) L r bp s = setBasePath_loop n L r 0 (s(r := (s r)\<lparr>basePath := bp\<rparr>))"
| "setBasePath_loop 0 L r i s = None"
| "setBasePath_loop (Suc n) L r i s =
     (if i < length (routes (s r)) then
        (let route = routes (s r) ! i
         in case handler route of
              Mountable sub \<Rightarrow>
                (let newPath = basePath (s r) @ path route;
                     m = subAppMatch L newPath;
                     route' = route\<lparr>path := basePath (s r), match := m\<rparr>;
                     s1 = s(r := (s r)\<lparr>routes := (routes (s r))[i := route']\<rparr>)
                 in case setBasePath n L sub newPath s1 of
                      None \<Rightarrow> None
                    | Some s2 \<Rightarrow> setBasePath_loop n L r (i + 1) s2)
            | Terminal f \<Rightarrow>
                (let newPath = basePath (s r) @ path route;
                     m = routeMatch L (trimTrailing newPath);
                     route' = route\<lparr>match := m\<rparr>;
                     s1 = s(r := (s r)\<lparr>routes := (routes (s r))[i := route']\<rparr>)
                 in setBasePath_loop n L r (i + 1) s1))
      else Some s)"

text \<open>\<open>use(path, handler)\<close>; \<open>use(handler)\<close> is the call with no path.\<close>

definition use :: "nat \<Rightarrow> lib \<Rightarrow> nat \<Rightarrow> string option \<Rightarrow> target \<Rightarrow> store \<Rightarrow> store option" where
  "use n L r path_arg h s =
     (let p = (case path_arg of None \<Rightarrow> [] | Some q \<Rightarrow> q)
      in case (case h of
                 Mountable sub \<Rightarrow> setBasePath n L sub (basePath (s r) @ p) s
               | Terminal f \<Rightarrow> Some s) of
           None \<Rightarrow> None
         | Some s1 \<Rightarrow>
             (let m = subAppMatch L (basePath (s1 r) @ p)
              in Some (s1(r := (s1 r)\<lparr>routes := routes (s1 r) @
                         [\<lparr>method = None, path = p, handler = h, match = m\<rparr>]\<rparr>))))"

subsection \<open>Dispatch\<close>

text \<open>
  The two getters the router fills, \<open>getUrlParams\<close> and \<open>getBasePath\<close>, and the path
  component of the request target: \<open>url.parse(req.url, true).pathname\<close> for a target in
  origin form is the target up to the first \<open>?\<close> or \<open>#\<close>.
\<close>

record caches =
  getUrlParams :: "(errobj, params) getter"
  getBasePath :: "(errobj, string) getter"

definition pathname :: "string \<Rightarrow> string" where
  "pathname u = takeWhile (\<lambda>c. c \<noteq> CHR ''?'' \<and> c \<noteq> CHR ''#'') u"

text \<open>What a call of the router does: it calls the handler of a route, returns the 404
  reply, or throws what the matcher threw.\<close>

datatype dispatched = Invoke target | Reply Response | Throw errobj

definition method_differs :: "Route \<Rightarrow> request \<Rightarrow> bool" where
  "method_differs route req =
     (case method route of None \<Rightarrow> False | Some m \<Rightarrow> m \<noteq> [] \<and> m \<noteq> req_method req)"

fun handler_loop :: "Route list \<Rightarrow> string \<Rightarrow> request \<Rightarrow> caches \<Rightarrow> dispatched \<times> caches" where
  "handler_loop [] bp req c = (Reply (reply (Json (JStr ''Not Found'')) (Some 404) None), c)"
| "handler_loop (route # rest) bp req c =
     (if method_differs route req then handler_loop rest bp req c
      else (case match route (pathname (req_url req)) of
              Inl e \<Rightarrow> (Throw e, c)
            | Inr None \<Rightarrow> handler_loop rest bp req c
            | Inr (Some ps) \<Rightarrow>
                (Invoke (handler route),
                 c\<lparr>getUrlParams := memo_set req (Plain ps) (getUrlParams c),
                   getBasePath := memo_set req (Plain bp) (getBasePath c)\<rparr>)))"

definition Router_handler :: "store \<Rightarrow> nat \<Rightarrow> request \<Rightarrow> caches \<Rightarrow> dispatched \<times> caches" where
  "Router_handler s r req c = handler_loop (routes (s r)) (basePath (s r)) req c"

text \<open>Following the calls from router to router, down to a plain handler. The chain can
  be endless when a router is mounted below itself, so it is bounded by a count.\<close>

fun dispatch :: "nat \<Rightarrow> store \<Rightarrow> target \<Rightarrow> request \<Rightarrow> caches \<Rightarrow> (dispatched \<times> caches) option" where
  "dispatch n s (Terminal f) req c = Some (Invoke (Terminal f), c)"
| "dispatch 0 s (Mountable r) req c = None"
| "dispatch (Suc n) s (Mountable r) req c =
     (case Router_handler s r req c of
        (Invoke h, c') \<Rightarrow> dispatch n s h req c'
      | (Reply rp, c') \<Rightarrow> Some (Reply rp, c')
      | (Throw e, c') \<Rightarrow> Some (Throw e, c'))"

definition no_caches :: caches where
  "no_caches = \<lparr>getUrlParams = createGetter, getBasePath = createGetter\<rparr>"

section \<open>The library on plain patterns\<close>

text \<open>
  To run the router on concrete requests, \<open>pathToRegexp\<close> and \<open>decodeURIComponent\<close> are
  given for the patterns and pathnames of the tests: ASCII text, a pattern made of
  literal text and of parameters \<open>:name\<close> that directly follow a \<open>/\<close> and carry no
  modifier or custom pattern. Such a parameter compiles to the group \<open>\/([^\/]+?)\<close>;
  with \<open>end\<close> and without \<open>strict\<close> the expression ends with \<open>(?:\/)?$\<close>; without \<open>end\<close>
  it ends with the lookahead \<open>(?=\/|$)\<close>, unless the pattern is empty or ends with
  \<open>/\<close>. The flag \<open>i\<close> is set unless \<open>sensitive\<close>.
\<close>

datatype token = Text string | Param string string

definition is_word :: "char \<Rightarrow> bool" where
  "is_word c =
     (c \<in> set ''ABCDEFGHIJKLMNOPQRSTUVWXYZabcdefghijklmnopqrstuvwxyz0123456789_'')"

function parse :: "string \<Rightarrow> string \<Rightarrow> token list" where
  "parse acc [] = (if acc = [] then [] else [Text acc])"
| "parse acc (c # cs) =
     (if c = CHR '':'' \<and> takeWhile is_word cs \<noteq> [] then
        (let nm = takeWhile is_word cs;
             rest = dropWhile is_word cs;
             (prev, text) = (if acc \<noteq> [] \<and> last acc = CHR ''/'' then (''/'', butlast acc)
                             else ([], acc))
         in (if text = [] then [] else [Text text]) @ Param prev nm # parse [] rest)
      else parse (acc @ [c]) cs)"
  by pat_completeness auto
termination
  by (relation "measure (\<lambda>(acc, s). length s)")
     (auto simp: length_dropWhile_le less_Suc_eq_le)

definition same_text :: "bool \<Rightarrow> string \<Rightarrow> string \<Rightarrow> bool" where
  "same_text sens a b = (if sens then a = b else toLowerCase a = toLowerCase b)"

text \<open>All the ways the tokens match a prefix of the string, in the order the regular
  expression tries them (a parameter takes as few characters as it can): the captures,
  and the rest of the string.\<close>

fun match_tokens :: "bool \<Rightarrow> token list \<Rightarrow> string \<Rightarrow> (string option list \<times> string) list" where
  "match_tokens sens [] str = [([], str)]"
| "match_tokens sens (Text t # ts) str =
     (if length t \<le> length str \<and> same_text sens t (take (length t) str)
      then match_tokens sens ts (drop (length t) str)
      else [])"
| "match_tokens sens (Param prev nm # ts) str =
     (if length prev \<le> length str \<and> take (length prev) str = prev then
        (let b = drop (length prev) str;
             seg = takeWhile (\<lambda>c. c \<noteq> CHR ''/'') b
         in concat (map (\<lambda>n. map (\<lambda>(caps, rest). (Some (take n b) # caps, rest))
                                   (match_tokens sens ts (drop n b)))
                        [1..<length seg + 1]))
      else [])"

definition isEndDelimited :: "token list \<Rightarrow> bool" where
  "isEndDelimited tokens =
     (case rev tokens of
        [] \<Rightarrow> True
      | Text t # _ \<Rightarrow> t \<noteq> [] \<and> last t = CHR ''/''
      | Param prev nm # _ \<Rightarrow> False)"

definition end_ok :: "options \<Rightarrow> token list \<Rightarrow> string \<Rightarrow> bool" where
  "end_ok opts tokens rest =
     (if end_opt opts then rest = [] \<or> (\<not> strict opts \<and> rest = ''/'')
      else isEndDelimited tokens \<or> rest = [] \<or> hd rest = CHR ''/'')"

definition token_keys :: "token list \<Rightarrow> Key list" where
  "token_keys tokens =
     concat (map (\<lambda>t. case t of Text s \<Rightarrow> []
                        | Param prev nm \<Rightarrow> [\<lparr>name = nm, repeat = False, delimiter = ''/''\<rparr>])
                 tokens)"

definition pathToRegexp0 :: "string \<Rightarrow> options \<Rightarrow> Key list \<times> regexp" where
  "pathToRegexp0 p opts =
     (let tokens = parse [] p
      in (token_keys tokens,
          \<lambda>str. case filter (\<lambda>(caps, rest). end_ok opts tokens rest)
                        (match_tokens (sensitive opts) tokens str) of
                   [] \<Rightarrow> None
                 | (caps, rest) # _ \<Rightarrow> Some caps))"

text \<open>\<open>decodeURIComponent\<close> on ASCII: an escape is \<open>%\<close> and two hexadecimal digits. An
  escape of a byte from 0x80 on stands for a part of a longer character and is left out
  here: it is answered like a malformed escape.\<close>

definition hexval :: "char \<Rightarrow> nat option" where
  "hexval c = map_of (zip ''0123456789abcdefABCDEF''
                          [0, 1, 2, 3, 4, 5, 6, 7, 8, 9, 10, 11, 12, 13, 14, 15,
                           10, 11, 12, 13, 14, 15]) c"

fun decodeURIComponent0 :: "string \<Rightarrow> string option" where
  "decodeURIComponent0 [] = Some []"
| "decodeURIComponent0 (c # cs) =
     (if c = CHR ''%'' then
        (case cs of
           h1 # h2 # rest \<Rightarrow>
             (case (hexval h1, hexval h2) of
                (Some a, Some b) \<Rightarrow>
                  if 16 * a + b < 128
                  then map_option ((#) (char_of (16 * a + b))) (decodeURIComponent0 rest)
                  else None
              | _ \<Rightarrow> None)
         | _ \<Rightarrow> None)
      else map_option ((#) c) (decodeURIComponent0 cs))"

definition lib0 :: lib where
  "lib0 = \<lparr>pathToRegexp = pathToRegexp0, decodeURIComponent = decodeURIComponent0\<rparr>"

section \<open>Observations and sample routers\<close>

text \<open>What is read off a matcher's answer and off the outcome of a dispatch.\<close>

definition accepted :: "errobj + params option \<Rightarrow> bool" where
  "accepted a = (case a of Inr (Some ps) \<Rightarrow> True | _ \<Rightarrow> False)"

definition invoked :: "dispatched \<Rightarrow> target option" where
  "invoked d = (case d of Invoke h \<Rightarrow> Some h | _ \<Rightarrow> None)"

definition replied :: "dispatched \<Rightarrow> (int \<times> jsval) option" where
  "replied d = (case d of Reply rp \<Rightarrow> Some (statusCode rp, body rp) | _ \<Rightarrow> None)"

definition thrown :: "dispatched \<Rightarrow> int option" where
  "thrown d = (case d of Throw e \<Rightarrow> err_statusCode e | _ \<Rightarrow> None)"

definition reqG :: "string \<Rightarrow> request" where
  "reqG u = \<lparr>req_id = 1, req_method = ''GET'', req_url = u\<rparr>"

text \<open>\<open>app.get('/:a', h1); app.use(h2)\<close> on a new router 0.\<close>

definition fallback_app :: "store option" where
  "fallback_app = use 0 lib0 0 None (Terminal 2) (get lib0 0 ''/:a'' (Terminal 1) no_routers)"

text \<open>\<open>app.use('/app', h)\<close> on a new router 0.\<close>

definition use_app :: "store option" where
  "use_app = use 0 lib0 0 (Some ''/app'') (Terminal 5) no_routers"

text \<open>The same router, then mounted in a new router 7: \<open>parent.use(app)\<close>.\<close>

definition use_app_mounted :: "store option" where
  "use_app_mounted = Option.bind use_app (use 20 lib0 7 None (Mountable 0))"

text \<open>\<open>sub.get('/:x', h); app.use('/sub', sub)\<close>, with \<open>app\<close> router 0 and \<open>sub\<close>
  router 1.\<close>

definition mounted :: "store option" where
  "mounted =
     use 20 lib0 0 (Some ''/sub'') (Mountable 1) (get lib0 1 ''/:x'' (Terminal 9) no_routers)"

text \<open>Four routers, mounted from the deepest up:
  \<open>r3.get('/:x', h); r2.use('/c', r3); r1.use('/b', r2); r0.use('/a', r1)\<close>.\<close>

definition chain4 :: "store option" where
  "chain4 =
     Option.bind (use 20 lib0 2 (Some ''/c'') (Mountable 3)
                    (get lib0 3 ''/:x'' (Terminal 9) no_routers))
       (\<lambda>s1. Option.bind (use 20 lib0 1 (Some ''/b'') (Mountable 2) s1)
          (\<lambda>s2. use 20 lib0 0 (Some ''/a'') (Mountable 1) s2))"

text \<open>What is compared between two states of a router \<open>r\<close> and a router \<open>sub\<close>
  mounted in it: the base paths, the stored paths of the routes of \<open>r\<close>, and which of
  the pathnames \<open>ps\<close> each matcher of \<open>r\<close> accepts.\<close>

definition observe :: "nat \<Rightarrow> nat \<Rightarrow> string list \<Rightarrow> store
    \<Rightarrow> string \<times> string list \<times> bool list list \<times> string" where
  "observe r sub ps s =
     (basePath (s r), map path (routes (s r)),
      map (\<lambda>rt. map (\<lambda>p. accepted (match rt p)) ps) (routes (s r)),
      basePath (s sub))"

text \<open>The store a sequence of registrations ends with.\<close>

definition built :: "store option \<Rightarrow> store" where
  "built so = (case so of Some s \<Rightarrow> s | None \<Rightarrow> no_routers)"

definition no_match :: "errobj + params option \<Rightarrow> bool" where
  "no_match a = (case a of Inr None \<Rightarrow> True | _ \<Rightarrow> False)"

definition raised :: "errobj + params option \<Rightarrow> int option" where
  "raised a = (case a of Inl e \<Rightarrow> err_statusCode e | Inr x \<Rightarrow> None)"

text \<open>\<open>app.post('/:a', h1); app.get('/', h2); app.get('/:a', h3); app.get('/abc', h4)\<close>
  on a new router 0.\<close>

definition first_wins :: store where
  "first_wins =
     get lib0 0 ''/abc'' (Terminal 4)
       (get lib0 0 ''/:a'' (Terminal 3)
          (get lib0 0 ''/'' (Terminal 2)
             (post lib0 0 ''/:a'' (Terminal 1) no_routers)))"

text \<open>Three routers, as in the test \<open>should allow nesting deep routers\<close>, with a
  parameter in the deepest: \<open>r2.get('/:x', h); r1.use('/2nd', r2); r0.use('/1st', r1)\<close>.\<close>

definition chain3 :: "store option" where
  "chain3 =
     Option.bind (use 20 lib0 1 (Some ''/2nd'') (Mountable 2)
                    (get lib0 2 ''/:x'' (Terminal 9) no_routers))
       (\<lambda>s1. use 20 lib0 0 (Some ''/1st'') (Mountable 1) s1)"

definition param_of :: "request \<Rightarrow> string \<Rightarrow> caches \<Rightarrow> param option" where
  "param_of req k c =
     (case reqWeakMap (getUrlParams c) (req_id req) of
        Some (Plain ps) \<Rightarrow> ps k
      | _ \<Rightarrow> None)"

text \<open>What \<open>setBasePath\<close> does to a route whose handler is not a router.\<close>

definition rederive :: "lib \<Rightarrow> string \<Rightarrow> Route \<Rightarrow> Route" where
  "rederive L bp rt = rt\<lparr>match := routeMatch L (trimTrailing (bp @ path rt))\<rparr>"

definition plain :: "Route \<Rightarrow> bool" where
  "plain rt = (case handler rt of Terminal f \<Rightarrow> True | Mountable sub \<Rightarrow> False)"
section \<open>Properties of the dispatcher\<close>

lemmas send_defs = send_def new_Response_def reply_def isBuffer_def isStreamLike_def typeof_def
  setHeader_def getHeader_def header_unset_def res_end_def byteLength_def String_js_def Let_def
  and_then_def headersSent_def falsy_def

lemma lower_names [simp]:
  "toLowerCase ''Content-Type'' = ''content-type''"
  "toLowerCase ''Content-Length'' = ''content-length''"
  by (simp_all add: toLowerCase_def lower_char_def)

lemma valid_status_sent [simp]: "valid_status 200" "valid_status 500"
  by (simp_all add: valid_status_def)

text \<open>
  An error without \<open>statusCode\<close> and \<open>status\<close>, on a response that is still open: the
  status is 500 and the error is logged, and the body is the error's own message.
  \<open>statusCode\<close> already holds the default 500 when \<open>message\<close> is chosen, so the branch
  giving \<open>Internal Server Error\<close> is never taken.
\<close>

lemma base_unstatused_error:
  assumes "fn req (res w) = (Threw e, r)"
      and "err_statusCode e = None" and "err_status e = None"
      and "err_message e = Json (JStr m)" and "\<not> headersSent r"
  shows "(let (c, w') = base fn req w
          in c = Returns
           \<and> res_statusCode (res w') = 500
           \<and> res_sent (res w') = Ended (if m = [] then None else Some (Json (JStr m)))
           \<and> console_error w' = console_error w @ [e])"
  using assms
  by (simp add: base_def or_num_def truthy_num_def send_defs split: sent.splits)

text \<open>
  C1. A handler throws \<open>new Error('Test Error')\<close>, an error with no status code. The
  claim asks for status 500, the body \<open>Internal Server Error\<close> and the error logged.
  The dispatcher answers 500 and logs the error, but the body on the wire is
  \<open>Test Error\<close>, the message of the thrown error.
\<close>

theorem base_plain_error_leaks_message:
  "(let (c, w) = base (\<lambda>req r. (Threw (new_Error ''Test Error''), r))
              \<lparr>req_id = 0, req_method = ''GET'', req_url = ''/''\<rparr>
              \<lparr>res = fresh_res, console_error = []\<rparr>
    in c = Returns
     \<and> res_statusCode (res w) = 500
     \<and> res_sent (res w) = Ended (Some (Json (JStr ''Test Error'')))
     \<and> res_sent (res w) \<noteq> Ended (Some (Json (JStr ''Internal Server Error'')))
     \<and> console_error w = [new_Error ''Test Error''])"
  by (simp add: base_def new_Error_def or_num_def truthy_num_def send_defs fresh_res_def)

text \<open>
  C7. A handler returns \<open>true\<close>, a value of the type \<open>Json\<close> that is neither a
  \<open>Response\<close> nor \<open>undefined\<close>. The claim asks for a response with status 200 whose
  \<open>Content-Length\<close> is the byte length of what is sent. The dispatcher sets the status
  200 and \<open>Content-Length: 4\<close>, then hands the boolean itself to \<open>res.end\<close>: only
  objects and numbers go through \<open>JSON.stringify\<close>. \<open>res.end\<close> throws, the dispatcher's
  promise is rejected, and the response is never ended: nothing is sent.
\<close>

theorem base_true_not_sent:
  "(let (c, w) = base (\<lambda>req r. (Returned (Val (Json (JBool True))), r))
              \<lparr>req_id = 0, req_method = ''GET'', req_url = ''/''\<rparr>
              \<lparr>res = fresh_res, console_error = []\<rparr>
    in c = Throws (ERR_INVALID_ARG_TYPE (Json (JBool True)))
     \<and> res_sent (res w) = NotSent
     \<and> res_statusCode (res w) = 200
     \<and> getHeader ''Content-Length'' (res w) = Some (HNum 4))"
  by (simp add: base_def send_defs fresh_res_def)

text \<open>\<open>false\<close> is handed to \<open>res.end\<close> as well; it counts as no chunk, so the response
  ends with no payload under \<open>Content-Length: 5\<close>.\<close>

lemma base_false_no_payload:
  "(let (c, w) = base (\<lambda>req r. (Returned (Val (Json (JBool False))), r))
              \<lparr>req_id = 0, req_method = ''GET'', req_url = ''/''\<rparr>
              \<lparr>res = fresh_res, console_error = []\<rparr>
    in c = Returns
     \<and> res_sent (res w) = Ended None
     \<and> getHeader ''Content-Length'' (res w) = Some (HNum 5))"
  by (simp add: base_def send_defs fresh_res_def)

text \<open>
  What the dispatcher does with every value that is not a \<open>Response\<close>, on a response
  that is still open. \<open>undefined\<close>: nothing. \<open>null\<close>: status 200, no payload, the
  headers as the handler left them. A buffer: sent as it is, with its length as
  \<open>Content-Length\<close> and \<open>application/octet-stream\<close> as \<open>Content-Type\<close> when none was
  set. A stream: piped. A string: sent as it is. A number, an array or an object: sent as
  its JSON text, with \<open>application/json; charset=utf-8\<close> as \<open>Content-Type\<close> when none
  was set. In these cases \<open>Content-Length\<close> is the byte length of what is sent. A
  boolean: as in the two runs above.
\<close>

lemma base_classifies_body:
  assumes "fn req (res w) = (Returned (Val v), r)" and "\<not> headersSent r"
  shows "(let (c, w') = base fn req w; r' = res w';
              ct = getHeader ''Content-Type''; cl = getHeader ''Content-Length''
          in case v of
               Undefined \<Rightarrow> c = Returns \<and> r' = r
             | Json JNull \<Rightarrow>
                 c = Returns \<and> res_statusCode r' = 200 \<and>
                 res_sent r' = Ended None \<and> res_headers r' = res_headers r
             | Buffer b \<Rightarrow>
                 c = Returns \<and> res_statusCode r' = 200 \<and>
                 res_sent r' = Ended (Some (Buffer b)) \<and> cl r' = Some (HNum (length b)) \<and>
                 ct r' = (if header_unset ''Content-Type'' r
                          then Some (HStr ''application/octet-stream'') else ct r)
             | Stream s \<Rightarrow>
                 c = Returns \<and> res_statusCode r' = 200 \<and> res_sent r' = Piped s \<and>
                 ct r' = (if header_unset ''Content-Type'' r
                          then Some (HStr ''application/octet-stream'') else ct r)
             | Json (JStr s) \<Rightarrow>
                 c = Returns \<and> res_statusCode r' = 200 \<and>
                 res_sent r' = Ended (if s = [] then None else Some (Json (JStr s))) \<and>
                 cl r' = Some (HNum (byteLength s)) \<and> ct r' = ct r
             | Json (JBool b) \<Rightarrow>
                 (if b then c = Throws (ERR_INVALID_ARG_TYPE (Json (JBool True))) \<and>
                           res_sent r' = res_sent r \<and> cl r' = Some (HNum 4)
                  else c = Returns \<and> res_sent r' = Ended None \<and> cl r' = Some (HNum 5)) \<and>
                 res_statusCode r' = 200 \<and> ct r' = ct r
             | Json j \<Rightarrow>
                 c = Returns \<and> res_statusCode r' = 200 \<and>
                 res_sent r' = Ended (if JSON_stringify j = [] then None
                                      else Some (Json (JStr (JSON_stringify j)))) \<and>
                 cl r' = Some (HNum (byteLength (JSON_stringify j))) \<and>
                 ct r' = (if header_unset ''Content-Type'' r
                          then Some (HStr ''application/json; charset=utf-8'') else ct r))"
proof (cases v)
  case Undefined
  with assms show ?thesis by (simp add: base_def)
next
  case (Json j)
  with assms show ?thesis
    by (cases j) (simp_all add: base_def send_defs split: sent.splits)
next
  case (Buffer b)
  with assms show ?thesis by (simp add: base_def send_defs split: sent.splits)
next
  case (Stream s)
  with assms show ?thesis by (simp add: base_def send_defs split: sent.splits)
qed

text \<open>The number 1234 goes out as the four bytes \<open>1234\<close>, as JSON.\<close>

lemma base_sends_1234:
  "(let (c, w) = base (\<lambda>req r. (Returned (Val (Json (JNum (Finite ''1234'')))), r))
              \<lparr>req_id = 0, req_method = ''GET'', req_url = ''/''\<rparr>
              \<lparr>res = fresh_res, console_error = []\<rparr>
    in c = Returns \<and> res_statusCode (res w) = 200
     \<and> res_sent (res w) = Ended (Some (Json (JStr ''1234'')))
     \<and> getHeader ''Content-Length'' (res w) = Some (HNum 4)
     \<and> getHeader ''Content-Type'' (res w) = Some (HStr ''application/json; charset=utf-8''))"
  by (simp add: base_def send_defs fresh_res_def)

text \<open>The headers of a \<open>Response\<close> are never read: \<open>send\<close> gives the same result
  whatever they are.\<close>

lemma send_ignores_reply_headers:
  "send (Resp (reply b sc (Some hs))) r = send (Resp (reply b sc None)) r"
  by (simp add: send_def reply_def new_Response_def)

text \<open>
  C9. A handler returns \<open>reply({a: 1}, 200, {'Content-Type': 'text/plain'})\<close>. The claim
  asks for \<open>text/plain\<close> on the wire. The dispatcher sends
  \<open>application/json; charset=utf-8\<close>: the headers given to \<open>reply\<close> do not reach the
  response object.
\<close>

theorem base_reply_content_type_dropped:
  "getHeader ''Content-Type''
     (res (snd (base (\<lambda>req r. (Returned (Resp (reply (Json (JObj [(''a'', JNum (Finite ''1''))]))
                               (Some 200)
                               (Some [''Content-Type'' \<mapsto> HStr ''text/plain'']))), r))
        \<lparr>req_id = 0, req_method = ''GET'', req_url = ''/''\<rparr>
        \<lparr>res = fresh_res, console_error = []\<rparr>)))
   = Some (HStr ''application/json; charset=utf-8'')"
  by (simp add: base_def send_defs fresh_res_def)

section \<open>Properties of getters\<close>

lemma memo_hit:
  "reqWeakMap g (req_id req) = Some v \<Longrightarrow> memo fn req args g = (Inr v, g)"
  by (simp add: memo_def)

lemma memo_returns_cached:
  "memo fn req args g = (Inr v, g') \<Longrightarrow> reqWeakMap g' (req_id req) = Some v"
  by (auto simp: memo_def split: option.splits sum.splits)

lemma step_keeps_entry:
  assumes "reqWeakMap g k = Some v" and "\<not> sets k e"
  shows "reqWeakMap (step fn e g) k = Some v
       \<and> calls_for k (step fn e g) = calls_for k g"
proof (cases e)
  case (Call req args)
  with assms show ?thesis
    by (auto simp: memo_def calls_for_def split: option.splits sum.splits)
next
  case (Set req v')
  with assms show ?thesis by (simp add: sets_def memo_set_def calls_for_def)
next
  case (Settle p out)
  then show ?thesis using assms by (simp add: settle_def calls_for_def)
qed

lemma run_keeps_entry:
  assumes "reqWeakMap g k = Some v" and "\<forall>e \<in> set es. \<not> sets k e"
  shows "reqWeakMap (run fn es g) k = Some v
       \<and> calls_for k (run fn es g) = calls_for k g"
  using assms
proof (induction es arbitrary: g)
  case Nil
  then show ?case by simp
next
  case (Cons e es)
  from Cons.prems have s: "reqWeakMap (step fn e g) k = Some v"
    "calls_for k (step fn e g) = calls_for k g"
    using step_keeps_entry [of g k v e fn] by simp_all
  from Cons.IH [OF s(1)] Cons.prems(2) s(2) show ?case by simp
qed

lemma once_createGetter: "once createGetter"
  by (simp add: once_def createGetter_def returned_for_def)

lemma once_step: "once g \<Longrightarrow> once (step fn e g)"
proof (cases e)
  case (Call req args)
  assume o: "once g"
  show ?thesis
  proof (cases "reqWeakMap g (req_id req)")
    case (Some v)
    with Call o show ?thesis by (simp add: memo_def)
  next
    case None
    with o have "returned_for (req_id req) g = []" by (auto simp: once_def)
    with None Call o show ?thesis
      by (auto simp: memo_def once_def returned_for_def split: sum.splits)
  qed
next
  case (Set req v)
  assume "once g"
  with Set show ?thesis by (simp add: once_def memo_set_def returned_for_def)
next
  case (Settle p out)
  assume "once g"
  with Settle show ?thesis by (simp add: once_def settle_def returned_for_def)
qed

lemma once_run: "once g \<Longrightarrow> once (run fn es g)"
  by (induction es arbitrary: g) (simp_all add: once_step)

text \<open>With a compute function that never throws, every recorded call returned.\<close>

lemma step_all_returned:
  assumes "\<forall>r a h. \<not> isl (fn r a h)" and "\<forall>c \<in> set (invocations g). \<not> isl (snd c)"
  shows "\<forall>c \<in> set (invocations (step fn e g)). \<not> isl (snd c)"
proof (cases e)
  case (Call req args)
  from assms(1) have "\<not> isl (fn req args (invocations g))" by blast
  with Call assms(2) show ?thesis
    by (auto simp: memo_def split: option.splits sum.splits)
next
  case (Set req v)
  with assms show ?thesis by (simp add: memo_set_def)
next
  case (Settle p out)
  with assms show ?thesis by (simp add: settle_def)
qed

lemma run_all_returned:
  assumes "\<forall>r a h. \<not> isl (fn r a h)" and "\<forall>c \<in> set (invocations g). \<not> isl (snd c)"
  shows "\<forall>c \<in> set (invocations (run fn es g)). \<not> isl (snd c)"
  using assms(2)
proof (induction es arbitrary: g)
  case Nil
  then show ?case by simp
next
  case (Cons e es)
  from step_all_returned [OF assms(1) Cons.prems, of e]
  show ?case by (simp add: Cons.IH)
qed

lemma calls_are_returns:
  "\<forall>c \<in> set (invocations g). \<not> isl (snd c) \<Longrightarrow> calls_for k g = returned_for k g"
  unfolding calls_for_def returned_for_def by (rule filter_cong) auto

lemma step_keeps_settled:
  "promises g p = Some x \<Longrightarrow> promises (step fn e g) p = Some x"
  by (cases e) (auto simp: memo_def memo_set_def settle_def split: option.splits sum.splits)

lemma run_keeps_settled:
  "promises g p = Some x \<Longrightarrow> promises (run fn es g) p = Some x"
  by (induction es arbitrary: g) (simp_all add: step_keeps_settled)

text \<open>
  C5, as first stated, has the compute function called at most once for each request,
  for every getter. A compute function that throws is called again at each call of the
  getter: two calls for the same request, two calls of the compute function.
\<close>

theorem getter_invoked_twice_counterexample:
  "calls_for 7 (run always_throws [Call req7 (), Call req7 ()] createGetter)
   = [(7, Inl ''Setter did not work''), (7, Inl ''Setter did not work'')]"
  by (simp add: memo_def createGetter_def always_throws_def req7_def calls_for_def)

text \<open>
  C5. Once a call of the getter for a request has returned a value \<open>v\<close>, the value is in
  the map at once, whether or not it is a promise that is still pending. Whatever happens
  next (calls for any request, \<open>set\<close> on other requests, promises settling or not), a
  later call for the same request returns the same \<open>v\<close>, changes nothing, and the compute
  function is not called for that request again. From a new getter on, the compute
  function returns at most once for each request; when it never throws it is called at
  most once for each request.
\<close>

theorem getter_memoizes:
  fixes fn :: "('b, 'e, 'a) computeFn"
  assumes "memo fn req args g = (Inr v, g1)"
      and "\<forall>e \<in> set es. \<not> sets (req_id req) e"
  shows "reqWeakMap g1 (req_id req) = Some v
       \<and> memo fn req args' (run fn es g1) = (Inr v, run fn es g1)
       \<and> calls_for (req_id req) (run fn es g1) = calls_for (req_id req) g1
       \<and> length (returned_for k (run fn es' createGetter)) \<le> 1
       \<and> ((\<forall>r a h. \<not> isl (fn r a h))
            \<longrightarrow> length (calls_for k (run fn es' createGetter)) \<le> 1)"
proof -
  from assms(1) have c: "reqWeakMap g1 (req_id req) = Some v" by (rule memo_returns_cached)
  have o: "length (returned_for k (run fn es' createGetter)) \<le> 1"
    using once_run [OF once_createGetter, of fn es'] by (simp add: once_def)
  have "length (calls_for k (run fn es' createGetter)) \<le> 1"
    if nt: "\<forall>r a h. \<not> isl (fn r a h)"
  proof -
    have "\<forall>c \<in> set (invocations (createGetter :: ('e, 'a) getter)). \<not> isl (snd c)"
      by (simp add: createGetter_def)
    from run_all_returned [OF nt this, of es'] o show ?thesis
      by (simp add: calls_are_returns)
  qed
  with c o run_keeps_entry [OF c assms(2), of fn] show ?thesis
    by (simp add: memo_hit)
qed

theorem getter_memoizes_witness:
  "(let g1 = snd (memo fresh_promise req7 () createGetter);
        g2 = run fresh_promise [Call req8 (), Call req7 (), Settle 0 (Inr 5)] g1
    in memo fresh_promise req7 () createGetter = (Inr (Promise 0), g1)
     \<and> promises g1 0 = None
     \<and> memo fresh_promise req7 () g2 = (Inr (Promise 0), g2)
     \<and> calls_for 7 g2 = [(7, Inr (Promise 0))]
     \<and> length (calls_for 7
          (run fresh_promise [Call req7 (), Call req7 (), Call req8 ()] createGetter)) \<le> 1)"
  using getter_memoizes [of fresh_promise req7 "()" createGetter "Promise 0"
      "snd (memo fresh_promise req7 () createGetter)"
      "[Call req8 (), Call req7 (), Settle 0 (Inr 5)]" "()" 7
      "[Call req7 (), Call req7 (), Call req8 ()]"]
  by (simp add: Let_def memo_def createGetter_def fresh_promise_def req7_def req8_def sets_def
      calls_for_def settle_def)

text \<open>
  C10. When the compute function throws, nothing is stored for the request and the next
  call runs the compute function again. When it returns a promise, the promise is stored:
  after the promise is rejected, every later call for the request returns that same
  promise, and the compute function is not called again.
\<close>

theorem getter_errors:
  fixes fn :: "('b, 'e, 'a) computeFn"
  shows "(reqWeakMap g (req_id req) = None \<and> fn req args (invocations g) = Inl e
          \<longrightarrow> (let (out1, g1) = memo fn req args g;
                    (out2, g2) = memo fn req args' g1
                in out1 = Inl e \<and> reqWeakMap g1 (req_id req) = None
                 \<and> out2 = fn req args' (invocations g1)
                 \<and> calls_for (req_id req) g2
                     = calls_for (req_id req) g @ [(req_id req, Inl e), (req_id req, out2)]))
       \<and> (memo fn req args g = (Inr (Promise p), h1) \<and> promises h1 p = None
            \<and> (\<forall>e \<in> set es. \<not> sets (req_id req) e)
          \<longrightarrow> (let h2 = run fn (Settle p (Inl err) # es) h1
                in promises h2 p = Some (Inl err)
                 \<and> reqWeakMap h2 (req_id req) = Some (Promise p)
                 \<and> memo fn req args' h2 = (Inr (Promise p), h2)
                 \<and> calls_for (req_id req) h2 = calls_for (req_id req) h1))"
proof (intro conjI impI)
  assume a: "reqWeakMap g (req_id req) = None \<and> fn req args (invocations g) = Inl e"
  then show "let (out1, g1) = memo fn req args g;
                 (out2, g2) = memo fn req args' g1
             in out1 = Inl e \<and> reqWeakMap g1 (req_id req) = None
              \<and> out2 = fn req args' (invocations g1)
              \<and> calls_for (req_id req) g2
                  = calls_for (req_id req) g @ [(req_id req, Inl e), (req_id req, out2)]"
    by (simp add: memo_def calls_for_def split: sum.splits)
next
  assume b: "memo fn req args g = (Inr (Promise p), h1) \<and> promises h1 p = None
            \<and> (\<forall>e \<in> set es. \<not> sets (req_id req) e)"
  then have c: "reqWeakMap h1 (req_id req) = Some (Promise p)"
    using memo_returns_cached by fast
  let ?h = "settle p (Inl err) h1"
  from b have s: "promises ?h p = Some (Inl err)" by (simp add: settle_def)
  from c have c': "reqWeakMap ?h (req_id req) = Some (Promise p)" by (simp add: settle_def)
  have k: "calls_for (req_id req) ?h = calls_for (req_id req) h1"
    by (simp add: settle_def calls_for_def)
  from b have ns: "\<forall>e \<in> set es. \<not> sets (req_id req) e" by simp
  from run_keeps_settled [OF s, of fn es] run_keeps_entry [OF c' ns, of fn] k
  show "let h2 = run fn (Settle p (Inl err) # es) h1
        in promises h2 p = Some (Inl err)
         \<and> reqWeakMap h2 (req_id req) = Some (Promise p)
         \<and> memo fn req args' h2 = (Inr (Promise p), h2)
         \<and> calls_for (req_id req) h2 = calls_for (req_id req) h1"
    by (simp add: memo_hit)
qed

theorem getter_errors_witness:
  "(let (out1, g1) = memo always_throws req7 () createGetter;
        (out2, g2) = memo always_throws req7 () g1
    in out1 = Inl ''Setter did not work'' \<and> reqWeakMap g1 7 = None
     \<and> out2 = Inl ''Setter did not work''
     \<and> length (calls_for 7 g2) = 2)
 \<and> (let h1 = snd (memo fresh_promise req7 () createGetter);
        h2 = run fresh_promise [Settle 0 (Inl ''boom''), Call req7 (), Call req8 ()] h1
    in promises h2 0 = Some (Inl ''boom'')
     \<and> memo fresh_promise req7 () h2 = (Inr (Promise 0), h2)
     \<and> calls_for 7 h2 = [(7, Inr (Promise 0))])"
  using getter_errors [of "createGetter" req7 always_throws "()" "''Setter did not work''" "()"]
    getter_errors [of createGetter req7 fresh_promise "()" _ "()" 0
      "snd (memo fresh_promise req7 () createGetter)" "[Call req7 (), Call req8 ()]"
      "''boom''"]
  by (simp add: Let_def memo_def createGetter_def fresh_promise_def always_throws_def
      req7_def req8_def sets_def calls_for_def settle_def)


section \<open>Properties of the matcher\<close>









section \<open>Properties of the router\<close>

lemma handler_loop_skip:
  assumes "\<forall>j < length pre. \<not> method_differs (pre ! j) req
             \<longrightarrow> match (pre ! j) (pathname (req_url req)) = Inr None"
  shows "handler_loop (pre @ rs) bp req c = handler_loop rs bp req c"
  using assms
proof (induction pre)
  case Nil
  then show ?case by simp
next
  case (Cons a pre)
  from Cons.prems have a: "\<not> method_differs a req
      \<longrightarrow> match a (pathname (req_url req)) = Inr None"
    by auto
  from Cons.prems have "\<forall>j < length pre. \<not> method_differs (pre ! j) req
             \<longrightarrow> match (pre ! j) (pathname (req_url req)) = Inr None"
    by auto
  with Cons.IH a show ?case by auto
qed

lemma handler_loop_at:
  assumes "i < length rs"
      and "\<forall>j < i. \<not> method_differs (rs ! j) req
             \<longrightarrow> match (rs ! j) (pathname (req_url req)) = Inr None"
  shows "handler_loop rs bp req c = handler_loop (drop i rs) bp req c"
proof -
  have "handler_loop (take i rs @ drop i rs) bp req c = handler_loop (drop i rs) bp req c"
    using assms by (intro handler_loop_skip) simp
  then show ?thesis by simp
qed

text \<open>
  C3. Take the earliest route, in registration order, whose method filter passes and whose
  matcher does not answer no-match on the path component of the request (the target up to
  the query string). When that matcher accepts, the router calls the handler of exactly
  this route, and before the call the matched parameters and the router's current
  \<open>basePath\<close> are stored for the request; no later route is looked at. When that matcher
  throws instead, the router throws the same error and calls no handler, even if a later
  route accepts the path.
\<close>

theorem Router_handler_first_match:
  assumes "i < length (routes (s r))"
      and "\<not> method_differs (routes (s r) ! i) req"
      and "\<forall>j < i. \<not> method_differs (routes (s r) ! j) req
             \<longrightarrow> match (routes (s r) ! j) (pathname (req_url req)) = Inr None"
  shows "(match (routes (s r) ! i) (pathname (req_url req)) = Inr (Some ps)
          \<longrightarrow> (let (d, c') = Router_handler s r req c
               in d = Invoke (handler (routes (s r) ! i))
                \<and> c' = c\<lparr>getUrlParams := memo_set req (Plain ps) (getUrlParams c),
                         getBasePath := memo_set req (Plain (basePath (s r))) (getBasePath c)\<rparr>
                \<and> reqWeakMap (getUrlParams c') (req_id req) = Some (Plain ps)
                \<and> reqWeakMap (getBasePath c') (req_id req) = Some (Plain (basePath (s r)))))
       \<and> (match (routes (s r) ! i) (pathname (req_url req)) = Inl e
          \<longrightarrow> Router_handler s r req c = (Throw e, c))"
proof -
  from assms(1) obtain rt rest where d: "drop i (routes (s r)) = rt # rest"
    and rt: "rt = routes (s r) ! i"
    by (metis Cons_nth_drop_Suc)
  have "Router_handler s r req c = handler_loop (rt # rest) (basePath (s r)) req c"
    unfolding Router_handler_def using handler_loop_at [OF assms(1) assms(3)] d by simp
  with assms(2) rt show ?thesis
    by (simp add: memo_set_def)
qed

text \<open>
  C3, as first stated, asks for the earliest route whose filter passes and whose matcher
  accepts. After \<open>app.get('/:a', h1); app.use(h2)\<close> and for \<open>GET /%zz\<close>, that route is
  the second one, mounted with \<open>use\<close>: the first one does not accept. But the matcher of
  the first one throws on \<open>%zz\<close>, so no handler is called and the router throws the
  error with status 400.
\<close>

theorem Router_handler_first_match_counterexample:
  "map (\<lambda>rt. \<not> method_differs rt (reqG ''/%zz'')
               \<and> accepted (match rt (pathname (req_url (reqG ''/%zz'')))))
       (routes (built fallback_app 0)) = [False, True]
   \<and> invoked (fst (Router_handler (built fallback_app) 0 (reqG ''/%zz'') no_caches)) = None
   \<and> thrown (fst (Router_handler (built fallback_app) 0 (reqG ''/%zz'') no_caches)) = Some 400"
  by code_simp

text \<open>\<open>GET /abc?q=1\<close> on four routes: the first is for \<open>POST\<close>, the second answers
  no-match, the third and the fourth accept; the third is called.\<close>

theorem Router_handler_first_match_witness:
  "map (\<lambda>rt. (method_differs rt (reqG ''/abc?q=1''),
               accepted (match rt (pathname (req_url (reqG ''/abc?q=1''))))))
       (routes (first_wins 0))
     = [(True, True), (False, False), (False, True), (False, True)]
   \<and> invoked (fst (Router_handler first_wins 0 (reqG ''/abc?q=1'') no_caches))
       = Some (Terminal 3)
   \<and> reqWeakMap (getBasePath (snd (Router_handler first_wins 0 (reqG ''/abc?q=1'') no_caches))) 1
       = Some (Plain [])
   \<and> thrown (fst (Router_handler (built fallback_app) 0 (reqG ''/%zz'') no_caches)) = Some 400"
proof -
  let ?req = "reqG ''/abc?q=1''" and ?bad = "reqG ''/%zz''"
  have a: "map (\<lambda>rt. (method_differs rt ?req, accepted (match rt (pathname (req_url ?req)))))
             (routes (first_wins 0))
           = [(True, True), (False, False), (False, True), (False, True)]"
    by code_simp
  have l: "2 < length (routes (first_wins 0))" by code_simp
  have m: "\<not> method_differs (routes (first_wins 0) ! 2) ?req" by code_simp
  have h: "handler (routes (first_wins 0) ! 2) = Terminal 3" by code_simp
  have b: "basePath (first_wins 0) = []" by code_simp
  have i: "req_id ?req = 1" by code_simp
  have e0: "method_differs (routes (first_wins 0) ! 0) ?req" by code_simp
  have "no_match (match (routes (first_wins 0) ! Suc 0) (pathname (req_url ?req)))"
    by code_simp
  then have e1: "match (routes (first_wins 0) ! Suc 0) (pathname (req_url ?req)) = Inr None"
    by (auto simp: no_match_def split: sum.splits option.splits)
  have earlier: "\<forall>j < 2. \<not> method_differs (routes (first_wins 0) ! j) ?req
      \<longrightarrow> match (routes (first_wins 0) ! j) (pathname (req_url ?req)) = Inr None"
    using e0 e1 by (simp add: numeral_2_eq_2 less_Suc_eq)
  have "accepted (match (routes (first_wins 0) ! 2) (pathname (req_url ?req)))"
    by code_simp
  then obtain ps where
    ps: "match (routes (first_wins 0) ! 2) (pathname (req_url ?req)) = Inr (Some ps)"
    by (auto simp: accepted_def split: sum.splits option.splits)
  have l': "0 < length (routes (built fallback_app 0))" by code_simp
  have m': "\<not> method_differs (routes (built fallback_app 0) ! 0) ?bad" by code_simp
  have "raised (match (routes (built fallback_app 0) ! 0) (pathname (req_url ?bad))) = Some 400"
    by code_simp
  then obtain e where
    e: "match (routes (built fallback_app 0) ! 0) (pathname (req_url ?bad)) = Inl e"
       "err_statusCode e = Some 400"
    by (auto simp: raised_def split: sum.splits)
  from Router_handler_first_match [of 2 first_wins 0 ?req ps no_caches, OF l m earlier] ps h b i
  have "invoked (fst (Router_handler first_wins 0 ?req no_caches)) = Some (Terminal 3)
      \<and> reqWeakMap (getBasePath (snd (Router_handler first_wins 0 ?req no_caches))) 1
          = Some (Plain [])"
    by (simp add: invoked_def split: prod.splits)
  moreover
  from Router_handler_first_match [of 0 "built fallback_app" 0 ?bad _ no_caches e, OF l' m'] e
  have "thrown (fst (Router_handler (built fallback_app) 0 ?bad no_caches)) = Some 400"
    by (simp add: thrown_def)
  ultimately show ?thesis using a by simp
qed

text \<open>
  C8. \<open>app.use('/app', h)\<close> with a plain handler \<open>h\<close>. The claim asks for a route with
  no method and an anchored matcher. The route has no method, but its matcher is the
  prefix matcher: it accepts \<open>/app/extra\<close> and \<open>GET /app/extra\<close> calls \<open>h\<close>, where the
  anchored matcher of \<open>/app\<close> answers no-match. \<open>setBasePath\<close> does give this route an
  anchored matcher: once the router is mounted in another, the same route no longer
  accepts \<open>/app/extra\<close>.
\<close>

theorem use_plain_handler_matches_prefix:
  "(method (last (routes (built use_app 0))),
    accepted (match (last (routes (built use_app 0))) ''/app/extra''),
    invoked (fst (Router_handler (built use_app) 0 (reqG ''/app/extra'') no_caches)),
    accepted (routeMatch lib0 ''/app'' ''/app/extra''),
    accepted (match (last (routes (built use_app_mounted 0))) ''/app/extra''))
   = (None, True, Some (Terminal 5), False, False)"
  by code_simp

text \<open>The route that \<open>use\<close> appends for a plain handler, whatever the library does: the
  matcher is compiled with \<open>end: false\<close> and \<open>strict: true\<close>.\<close>

lemma use_terminal_registers:
  "use n L r (Some p) (Terminal f) s
   = Some (s(r := (s r)\<lparr>routes := routes (s r) @
        [\<lparr>method = None, path = p, handler = Terminal f,
          match = PathMatch L \<lparr>sensitive = False, strict = True, end_opt = False\<rparr>
                    (basePath (s r) @ p)\<rparr>]\<rparr>))"
  by (simp add: use_def subAppMatch_def)

text \<open>
  On a router whose routes all have plain handlers, \<open>setBasePath\<close> keeps the stored paths
  and compiles every matcher anew from the new base path and the stored path: a second
  call with the same base path changes nothing. The count of steps must exceed the number
  of routes.
\<close>

lemma plain_rederive [simp]: "plain (rederive L bp rt) = plain rt"
  by (simp add: plain_def rederive_def)

lemma path_rederive [simp]: "path (rederive L bp rt) = path rt"
  by (simp add: rederive_def)

lemma rederive_twice [simp]: "rederive L bp (rederive L bp' rt) = rederive L bp rt"
  by (simp add: rederive_def)

lemma setBasePath_loop_plain:
  assumes "\<forall>rt \<in> set (routes (s r)). plain rt"
      and "length (routes (s r)) - i < n"
  shows "setBasePath_loop n L r i s
         = Some (s(r := (s r)\<lparr>routes := take i (routes (s r))
                      @ map (rederive L (basePath (s r))) (drop i (routes (s r)))\<rparr>))"
  using assms
proof (induction n arbitrary: i s)
  case 0
  then show ?case by simp
next
  case (Suc n)
  let ?rs = "routes (s r)" and ?bp = "basePath (s r)"
  show ?case
  proof (cases "i < length ?rs")
    case False
    then show ?thesis by simp
  next
    case True
    then have "plain (?rs ! i)" using Suc.prems(1) by simp
    then obtain f where f: "handler (?rs ! i) = Terminal f"
      by (auto simp: plain_def split: target.splits)
    let ?x = "rederive L ?bp (?rs ! i)"
    let ?s1 = "s(r := (s r)\<lparr>routes := ?rs[i := ?x]\<rparr>)"
    have rs1: "routes (?s1 r) = ?rs[i := ?x]" and bp1: "basePath (?s1 r) = ?bp" by simp_all
    have p1: "\<forall>rt \<in> set (routes (?s1 r)). plain rt"
      unfolding rs1 using Suc.prems(1) True
      by (auto dest!: set_update_subset_insert [THEN subsetD])
    have n1: "length (routes (?s1 r)) - (i + 1) < n"
      unfolding rs1 using Suc.prems(2) True by simp
    have tk: "take (i + 1) (?rs[i := ?x]) = take i ?rs @ [?x]"
      using True by (simp add: take_Suc_conv_app_nth)
    have dr1: "drop (i + 1) (?rs[i := ?x]) = drop (i + 1) ?rs" by simp
    have dr: "drop i ?rs = ?rs ! i # drop (i + 1) ?rs"
      using True by (simp add: Cons_nth_drop_Suc)
    have "setBasePath_loop (Suc n) L r i s = setBasePath_loop n L r (i + 1) ?s1"
      using True f by (simp add: Let_def rederive_def)
    also have "\<dots> = Some (?s1(r := (?s1 r)\<lparr>routes := take (i + 1) (routes (?s1 r))
                      @ map (rederive L (basePath (?s1 r))) (drop (i + 1) (routes (?s1 r)))\<rparr>))"
      by (rule Suc.IH [of ?s1 "i + 1", OF p1 n1])
    also have "\<dots> = Some (s(r := (s r)\<lparr>routes := take i ?rs
                      @ map (rederive L ?bp) (drop i ?rs)\<rparr>))"
      unfolding rs1 bp1 tk dr1 by (subst dr) simp
    finally show ?thesis .
  qed
qed

lemma setBasePath_plain:
  assumes "\<forall>rt \<in> set (routes (s r)). plain rt"
      and "length (routes (s r)) < n"
  shows "setBasePath (Suc n) L r bp s
         = Some (s(r := (s r)\<lparr>basePath := bp,
                               routes := map (rederive L bp) (routes (s r))\<rparr>))"
proof -
  let ?s0 = "s(r := (s r)\<lparr>basePath := bp\<rparr>)"
  have "setBasePath (Suc n) L r bp s = setBasePath_loop n L r 0 ?s0" by simp
  also have "\<dots> = Some (?s0(r := (?s0 r)\<lparr>routes := take 0 (routes (?s0 r))
                      @ map (rederive L (basePath (?s0 r))) (drop 0 (routes (?s0 r)))\<rparr>))"
    by (rule setBasePath_loop_plain) (use assms in simp_all)
  also have "\<dots> = Some (s(r := (s r)\<lparr>basePath := bp,
                               routes := map (rederive L bp) (routes (s r))\<rparr>))"
    by simp
  finally show ?thesis .
qed

lemma setBasePath_plain_idempotent:
  assumes "\<forall>rt \<in> set (routes (s r)). plain rt"
      and "length (routes (s r)) < n"
  shows "Option.bind (setBasePath (Suc n) L r bp s) (setBasePath (Suc n) L r bp)
         = setBasePath (Suc n) L r bp s"
proof -
  let ?s1 = "s(r := (s r)\<lparr>basePath := bp, routes := map (rederive L bp) (routes (s r))\<rparr>)"
  have 1: "setBasePath (Suc n) L r bp s = Some ?s1"
    by (rule setBasePath_plain [of s r n L bp, OF assms])
  have 2: "\<forall>rt \<in> set (routes (?s1 r)). plain rt" using assms(1) by simp
  have 3: "length (routes (?s1 r)) < n" using assms(2) by simp
  have "setBasePath (Suc n) L r bp ?s1
        = Some (?s1(r := (?s1 r)\<lparr>basePath := bp,
                                   routes := map (rederive L bp) (routes (?s1 r))\<rparr>))"
    by (rule setBasePath_plain [of ?s1 r n L bp, OF 2 3])
  also have "\<dots> = Some ?s1" by (simp add: comp_def)
  finally show ?thesis unfolding 1 by simp
qed

text \<open>
  C2. \<open>sub.get('/:x', h); app.use('/sub', sub)\<close>, then \<open>setBasePath('/api')\<close> on \<open>app\<close>,
  once and twice. After one call the route of \<open>app\<close> accepts \<open>/api/sub/foo\<close> and the base
  path of \<open>sub\<close> is \<open>/api/sub\<close>. The call has replaced the stored path \<open>/sub\<close> of the
  route by \<open>/api\<close>, so the second call compiles the matcher from \<open>/api/api\<close>: the route
  no longer accepts \<open>/api/sub/foo\<close>, it accepts \<open>/api/api/foo\<close>, and the base path of
  \<open>sub\<close> is \<open>/api/api\<close>.
\<close>

theorem setBasePath_twice_differs:
  "map_option (observe 0 1 [''/api/sub/foo'', ''/api/api/foo''])
     (Option.bind mounted (setBasePath 20 lib0 0 ''/api''))
   = Some (''/api'', [''/api''], [[True, False]], ''/api/sub'')
   \<and> map_option (observe 0 1 [''/api/sub/foo'', ''/api/api/foo''])
       (Option.bind (Option.bind mounted (setBasePath 20 lib0 0 ''/api''))
          (setBasePath 20 lib0 0 ''/api''))
     = Some (''/api'', [''/api''], [[False, True]], ''/api/api'')"
  by code_simp

text \<open>
  C4. Four routers mounted from the deepest up, at \<open>/c\<close>, \<open>/b\<close> and \<open>/a\<close>, with the
  route \<open>/:x\<close> in the deepest. \<open>GET /a/b/c/foo\<close> calls no handler: the answer is
  404 \<open>Not Found\<close>.
\<close>

theorem four_routers_not_found:
  "Option.bind chain4
     (\<lambda>s. map_option (\<lambda>(d, c). (invoked d, replied d))
             (dispatch 10 s (Mountable 0) (reqG ''/a/b/c/foo'') no_caches))
   = Some (None, Some (404, Json (JStr ''Not Found'')))"
  by code_simp

text \<open>With three routers, as in the repository's test, the route is reached and \<open>x\<close> is
  bound to the last segment.\<close>

lemma three_routers_found:
  "Option.bind chain3
     (\<lambda>s. map_option (\<lambda>(d, c). (invoked d, param_of (reqG ''/1st/2nd/foo'') ''x'' c))
             (dispatch 10 s (Mountable 0) (reqG ''/1st/2nd/foo'') no_caches))
   = Some (Some (Terminal 9), Some (Single ''foo''))"
  by code_simp

end
